theory Spec2Isabelle
  imports Complex_Main "HOL-Library.Word"
begin

section \<open>The C interface of the capture kit\<close>

text \<open>
  The repository's sources are the two C headers \<^verbatim>\<open>RigidCaptureKit.h\<close> and
  \<^verbatim>\<open>TakaCaptureKit.h\<close>. A header is a sequence of declarations; it is embedded as
  the list of its declarations, in the order of the file, each with the names, types
  and constants the file gives it.
\<close>

subsection \<open>Types and declarations\<close>

text \<open>
  The C types that occur in the headers. \<open>CNamed\<close> is a use of a typedef name
  (\<^verbatim>\<open>RigidCaptureHandle\<close>, \<^verbatim>\<open>RigidCompositorProgressCallback\<close>, ...).
\<close>

datatype ctype =
    CVoid
  | CBool
  | CInt32
  | CUInt32
  | CInt64
  | CFloat
  | CCharPtr
  | CConstCharPtr
  | CVoidPtr
  | CNamed string

type_synonym param = "ctype \<times> string"

text \<open>
  The declarations of a header:
  \<^item> \<open>IfndefDefine X\<close>: the include guard \<^verbatim>\<open>#ifndef X\<close>, \<^verbatim>\<open>#define X\<close>;
  \<^item> \<open>Include f\<close>: \<^verbatim>\<open>#include <f>\<close>;
  \<^item> \<open>TypedefEnum T cs\<close>: \<^verbatim>\<open>typedef enum { A = 0, ... } T;\<close> with its enumerators;
  \<^item> \<open>Define X v\<close>: the object-like macro \<^verbatim>\<open>#define X v\<close>;
  \<^item> \<open>Typedef T t\<close>: \<^verbatim>\<open>typedef t T;\<close>;
  \<^item> \<open>TypedefFnPtr T r ps\<close>: a function-pointer typedef with return type \<open>r\<close> and
    parameters \<open>ps\<close>;
  \<^item> \<open>Prototype f r ps\<close>: the function prototype \<^verbatim>\<open>r f(ps);\<close>, where the parameter
    list \<^verbatim>\<open>(void)\<close> is the empty list.
\<close>

datatype decl =
    IfndefDefine string
  | Include string
  | TypedefEnum string "(string \<times> int) list"
  | Define string int
  | Typedef string ctype
  | TypedefFnPtr string ctype "param list"
  | Prototype string ctype "param list"

subsection \<open>RigidCaptureKit.h\<close>

definition RigidCaptureKit_h :: "decl list" where
  "RigidCaptureKit_h =
   [ IfndefDefine ''RIGID_CAPTURE_KIT_H'',
     Include ''stdint.h'',
     Include ''stdbool.h'',
     TypedefEnum ''RigidErrorCode''
       [ (''RIGID_SUCCESS'', 0),
         (''RIGID_ERROR_NOT_AUTHORIZED'', 1),
         (''RIGID_ERROR_INVALID_CONFIG'', 2),
         (''RIGID_ERROR_RECORDING_FAILED'', 3),
         (''RIGID_ERROR_ENCODING_FAILED'', 4),
         (''RIGID_ERROR_NO_RECORDING'', 5),
         (''RIGID_ERROR_SCREENSHOT_FAILED'', 6),
         (''RIGID_ERROR_WINDOW_NOT_FOUND'', 7),
         (''RIGID_ERROR_DISPLAY_NOT_FOUND'', 8) ],
     Define ''RIGID_CODEC_H264'' 0,
     Define ''RIGID_CODEC_HEVC'' 1,
     Define ''RIGID_CODEC_PRORES_422'' 2,
     Define ''RIGID_CODEC_PRORES_422_HQ'' 3,
     Typedef ''RigidCaptureHandle'' CVoidPtr,
     Prototype ''rigid_capture_create'' (CNamed ''RigidCaptureHandle'') [],
     Prototype ''rigid_capture_destroy'' CVoid [(CNamed ''RigidCaptureHandle'', ''handle'')],
     Prototype ''rigid_capture_check_permission'' CBool [],
     Prototype ''rigid_capture_request_permission'' CVoid [],
     Prototype ''rigid_capture_list_windows_json'' CCharPtr [],
     Prototype ''rigid_capture_list_displays_json'' CCharPtr [],
     Prototype ''rigid_free_string'' CVoid [(CCharPtr, ''str'')],
     Prototype ''rigid_capture_start_window_recording'' CInt32
       [ (CNamed ''RigidCaptureHandle'', ''handle''),
         (CUInt32, ''window_id''),
         (CConstCharPtr, ''output_path''),
         (CUInt32, ''width''),
         (CUInt32, ''height''),
         (CUInt32, ''fps''),
         (CUInt32, ''bitrate''),
         (CUInt32, ''keyframe_interval''),
         (CInt32, ''codec''),
         (CBool, ''capture_cursor''),
         (CBool, ''capture_audio''),
         (CFloat, ''scale_factor'') ],
     Prototype ''rigid_capture_start_display_recording'' CInt32
       [ (CNamed ''RigidCaptureHandle'', ''handle''),
         (CUInt32, ''display_id''),
         (CConstCharPtr, ''output_path''),
         (CUInt32, ''width''),
         (CUInt32, ''height''),
         (CUInt32, ''fps''),
         (CUInt32, ''bitrate''),
         (CUInt32, ''keyframe_interval''),
         (CInt32, ''codec''),
         (CBool, ''capture_cursor''),
         (CBool, ''capture_audio''),
         (CFloat, ''scale_factor'') ],
     Prototype ''rigid_capture_start_region_recording'' CInt32
       [ (CNamed ''RigidCaptureHandle'', ''handle''),
         (CUInt32, ''display_id''),
         (CInt32, ''x''),
         (CInt32, ''y''),
         (CInt32, ''width''),
         (CInt32, ''height''),
         (CConstCharPtr, ''output_path''),
         (CUInt32, ''fps''),
         (CUInt32, ''bitrate''),
         (CUInt32, ''keyframe_interval''),
         (CInt32, ''codec''),
         (CBool, ''capture_cursor''),
         (CBool, ''capture_audio''),
         (CFloat, ''scale_factor'') ],
     Prototype ''rigid_capture_stop_recording'' CInt32
       [(CNamed ''RigidCaptureHandle'', ''handle'')],
     Prototype ''rigid_capture_cancel_recording'' CInt32
       [(CNamed ''RigidCaptureHandle'', ''handle'')],
     Prototype ''rigid_capture_is_recording'' CBool
       [(CNamed ''RigidCaptureHandle'', ''handle'')],
     Prototype ''rigid_capture_get_recording_duration_ms'' CInt64
       [(CNamed ''RigidCaptureHandle'', ''handle'')],
     Prototype ''rigid_capture_screenshot_window'' CInt32
       [ (CUInt32, ''window_id''),
         (CConstCharPtr, ''output_path''),
         (CFloat, ''scale_factor''),
         (CBool, ''capture_cursor'') ],
     Prototype ''rigid_capture_screenshot_display'' CInt32
       [ (CUInt32, ''display_id''),
         (CConstCharPtr, ''output_path''),
         (CFloat, ''scale_factor''),
         (CBool, ''capture_cursor'') ],
     Prototype ''rigid_capture_screenshot_region'' CInt32
       [ (CUInt32, ''display_id''),
         (CInt32, ''x''),
         (CInt32, ''y''),
         (CInt32, ''width''),
         (CInt32, ''height''),
         (CConstCharPtr, ''output_path''),
         (CFloat, ''scale_factor''),
         (CBool, ''capture_cursor'') ],
     TypedefFnPtr ''RigidCompositorProgressCallback'' CVoid
       [ (CConstCharPtr, ''export_id''),
         (CFloat, ''percent''),
         (CInt64, ''current_frame''),
         (CInt64, ''total_frames'') ],
     TypedefFnPtr ''RigidCompositorCompletionCallback'' CVoid
       [ (CConstCharPtr, ''export_id''),
         (CInt32, ''error_code''),
         (CConstCharPtr, ''output_path_or_error'') ],
     Prototype ''rigid_compositor_render'' CInt32
       [ (CConstCharPtr, ''export_id''),
         (CConstCharPtr, ''config_json''),
         (CNamed ''RigidCompositorProgressCallback'', ''progress_callback'') ],
     Prototype ''rigid_compositor_render_async'' CInt32
       [ (CConstCharPtr, ''export_id''),
         (CConstCharPtr, ''config_json''),
         (CNamed ''RigidCompositorProgressCallback'', ''progress_callback''),
         (CNamed ''RigidCompositorCompletionCallback'', ''completion_callback'') ],
     Prototype ''rigid_compositor_cancel'' CVoid [] ]"

subsection \<open>TakaCaptureKit.h\<close>

definition TakaCaptureKit_h :: "decl list" where
  "TakaCaptureKit_h =
   [ IfndefDefine ''TAKA_CAPTURE_KIT_H'',
     Include ''stdint.h'',
     Include ''stdbool.h'',
     TypedefEnum ''TakaErrorCode''
       [ (''TAKA_SUCCESS'', 0),
         (''TAKA_ERROR_NOT_AUTHORIZED'', 1),
         (''TAKA_ERROR_INVALID_CONFIG'', 2),
         (''TAKA_ERROR_RECORDING_FAILED'', 3),
         (''TAKA_ERROR_ENCODING_FAILED'', 4),
         (''TAKA_ERROR_NO_RECORDING'', 5),
         (''TAKA_ERROR_SCREENSHOT_FAILED'', 6),
         (''TAKA_ERROR_WINDOW_NOT_FOUND'', 7),
         (''TAKA_ERROR_DISPLAY_NOT_FOUND'', 8) ],
     Define ''TAKA_CODEC_H264'' 0,
     Define ''TAKA_CODEC_HEVC'' 1,
     Define ''TAKA_CODEC_PRORES_422'' 2,
     Define ''TAKA_CODEC_PRORES_422_HQ'' 3,
     Typedef ''TakaCaptureHandle'' CVoidPtr,
     Prototype ''taka_capture_create'' (CNamed ''TakaCaptureHandle'') [],
     Prototype ''taka_capture_destroy'' CVoid [(CNamed ''TakaCaptureHandle'', ''handle'')],
     Prototype ''taka_capture_check_permission'' CBool [],
     Prototype ''taka_capture_request_permission'' CVoid [],
     Prototype ''taka_capture_list_windows_json'' CCharPtr [],
     Prototype ''taka_capture_list_displays_json'' CCharPtr [],
     Prototype ''taka_free_string'' CVoid [(CCharPtr, ''str'')],
     Prototype ''taka_capture_start_window_recording'' CInt32
       [ (CNamed ''TakaCaptureHandle'', ''handle''),
         (CUInt32, ''window_id''),
         (CConstCharPtr, ''output_path''),
         (CUInt32, ''width''),
         (CUInt32, ''height''),
         (CUInt32, ''fps''),
         (CUInt32, ''bitrate''),
         (CUInt32, ''keyframe_interval''),
         (CInt32, ''codec''),
         (CBool, ''capture_cursor''),
         (CBool, ''capture_audio''),
         (CFloat, ''scale_factor'') ],
     Prototype ''taka_capture_start_display_recording'' CInt32
       [ (CNamed ''TakaCaptureHandle'', ''handle''),
         (CUInt32, ''display_id''),
         (CConstCharPtr, ''output_path''),
         (CUInt32, ''width''),
         (CUInt32, ''height''),
         (CUInt32, ''fps''),
         (CUInt32, ''bitrate''),
         (CUInt32, ''keyframe_interval''),
         (CInt32, ''codec''),
         (CBool, ''capture_cursor''),
         (CBool, ''capture_audio''),
         (CFloat, ''scale_factor'') ],
     Prototype ''taka_capture_start_region_recording'' CInt32
       [ (CNamed ''TakaCaptureHandle'', ''handle''),
         (CUInt32, ''display_id''),
         (CInt32, ''x''),
         (CInt32, ''y''),
         (CInt32, ''width''),
         (CInt32, ''height''),
         (CConstCharPtr, ''output_path''),
         (CUInt32, ''fps''),
         (CUInt32, ''bitrate''),
         (CUInt32, ''keyframe_interval''),
         (CInt32, ''codec''),
         (CBool, ''capture_cursor''),
         (CBool, ''capture_audio''),
         (CFloat, ''scale_factor'') ],
     Prototype ''taka_capture_stop_recording'' CInt32
       [(CNamed ''TakaCaptureHandle'', ''handle'')],
     Prototype ''taka_capture_cancel_recording'' CInt32
       [(CNamed ''TakaCaptureHandle'', ''handle'')],
     Prototype ''taka_capture_is_recording'' CBool
       [(CNamed ''TakaCaptureHandle'', ''handle'')],
     Prototype ''taka_capture_get_recording_duration_ms'' CInt64
       [(CNamed ''TakaCaptureHandle'', ''handle'')],
     Prototype ''taka_capture_screenshot_window'' CInt32
       [ (CUInt32, ''window_id''),
         (CConstCharPtr, ''output_path''),
         (CFloat, ''scale_factor''),
         (CBool, ''capture_cursor'') ],
     Prototype ''taka_capture_screenshot_display'' CInt32
       [ (CUInt32, ''display_id''),
         (CConstCharPtr, ''output_path''),
         (CFloat, ''scale_factor''),
         (CBool, ''capture_cursor'') ],
     Prototype ''taka_capture_screenshot_region'' CInt32
       [ (CUInt32, ''display_id''),
         (CInt32, ''x''),
         (CInt32, ''y''),
         (CInt32, ''width''),
         (CInt32, ''height''),
         (CConstCharPtr, ''output_path''),
         (CFloat, ''scale_factor''),
         (CBool, ''capture_cursor'') ] ]"

subsection \<open>Reading a header\<close>

fun decl_name :: "decl \<Rightarrow> string" where
  "decl_name (IfndefDefine n) = n"
| "decl_name (Include n) = n"
| "decl_name (TypedefEnum n cs) = n"
| "decl_name (Define n v) = n"
| "decl_name (Typedef n t) = n"
| "decl_name (TypedefFnPtr n r ps) = n"
| "decl_name (Prototype n r ps) = n"

text \<open>The prototype a header declares under a name, as (return type, parameters).\<close>

fun prototype_of :: "decl list \<Rightarrow> string \<Rightarrow> (ctype \<times> param list) option" where
  "prototype_of [] f = None"
| "prototype_of (Prototype n r ps # ds) f = (if n = f then Some (r, ps) else prototype_of ds f)"
| "prototype_of (d # ds) f = prototype_of ds f"

text \<open>The type a typedef name stands for in a header; any other type is itself.\<close>

fun typedef_of :: "decl list \<Rightarrow> string \<Rightarrow> ctype option" where
  "typedef_of [] n = None"
| "typedef_of (Typedef m t # ds) n = (if m = n then Some t else typedef_of ds n)"
| "typedef_of (d # ds) n = typedef_of ds n"

fun resolve :: "decl list \<Rightarrow> ctype \<Rightarrow> ctype" where
  "resolve H (CNamed n) = (case typedef_of H n of Some t \<Rightarrow> t | None \<Rightarrow> CNamed n)"
| "resolve H t = t"

text \<open>
  The functions of a header: name, return type and parameter list, with the header's
  own typedef names resolved.
\<close>

fun functions_in :: "decl list \<Rightarrow> decl list \<Rightarrow> (string \<times> ctype \<times> param list) list" where
  "functions_in H [] = []"
| "functions_in H (Prototype n r ps # ds) =
     (n, resolve H r, map (\<lambda>(t, p). (resolve H t, p)) ps) # functions_in H ds"
| "functions_in H (d # ds) = functions_in H ds"

definition functions_of :: "decl list \<Rightarrow> (string \<times> ctype \<times> param list) list" where
  "functions_of H = functions_in H H"

text \<open>The integer constants of a header: the enumerators, and the macros.\<close>

fun enumerators_of :: "decl list \<Rightarrow> (string \<times> int) list" where
  "enumerators_of [] = []"
| "enumerators_of (TypedefEnum n cs # ds) = cs @ enumerators_of ds"
| "enumerators_of (d # ds) = enumerators_of ds"

fun macros_of :: "decl list \<Rightarrow> (string \<times> int) list" where
  "macros_of [] = []"
| "macros_of (Define n v # ds) = (n, v) # macros_of ds"
| "macros_of (d # ds) = macros_of ds"

subsection \<open>The prefix renaming between the two headers\<close>

text \<open>
  The library prefix is spelt \<^verbatim>\<open>rigid_\<close> in function names, \<^verbatim>\<open>RIGID_\<close> in constants
  and the include guard, and \<^verbatim>\<open>Rigid\<close> in type names.
\<close>

definition rename_lower_upper :: "string \<Rightarrow> string" where
  "rename_lower_upper s =
     (if take 6 s = ''rigid_'' then ''taka_'' @ drop 6 s
      else if take 6 s = ''RIGID_'' then ''TAKA_'' @ drop 6 s
      else s)"

definition rename_ident :: "string \<Rightarrow> string" where
  "rename_ident s =
     (if take 5 s = ''Rigid'' then ''Taka'' @ drop 5 s else rename_lower_upper s)"

fun rename_type :: "ctype \<Rightarrow> ctype" where
  "rename_type (CNamed n) = CNamed (rename_ident n)"
| "rename_type t = t"

definition rename_param :: "param \<Rightarrow> param" where
  "rename_param p = (rename_type (fst p), snd p)"

fun rename_decl :: "decl \<Rightarrow> decl" where
  "rename_decl (IfndefDefine n) = IfndefDefine (rename_ident n)"
| "rename_decl (Include n) = Include n"
| "rename_decl (TypedefEnum n cs) = TypedefEnum (rename_ident n) (map (\<lambda>(c, v). (rename_ident c, v)) cs)"
| "rename_decl (Define n v) = Define (rename_ident n) v"
| "rename_decl (Typedef n t) = Typedef (rename_ident n) (rename_type t)"
| "rename_decl (TypedefFnPtr n r ps) = TypedefFnPtr (rename_ident n) (rename_type r) (map rename_param ps)"
| "rename_decl (Prototype n r ps) = Prototype (rename_ident n) (rename_type r) (map rename_param ps)"

text \<open>Whether a name mentions the compositor, in either spelling.\<close>

fun contains :: "string \<Rightarrow> string \<Rightarrow> bool" where
  "contains p [] = (p = [])"
| "contains p (c # cs) = (take (length p) (c # cs) = p \<or> contains p cs)"

definition is_compositor_decl :: "decl \<Rightarrow> bool" where
  "is_compositor_decl d =
     (contains ''compositor'' (decl_name d) \<or> contains ''Compositor'' (decl_name d))"

text \<open>The last five declarations of \<^verbatim>\<open>RigidCaptureKit.h\<close>, its section "Video Compositor".\<close>

definition compositor_api :: "decl list" where
  "compositor_api = drop 26 RigidCaptureKit_h"

subsection \<open>Error codes\<close>

text \<open>
  \<^verbatim>\<open>typedef enum { RIGID_SUCCESS = 0, ... } RigidErrorCode;\<close> as a datatype, with the
  value and the name the header gives each enumerator. \<^verbatim>\<open>TakaErrorCode\<close> has the same
  enumerators under the other prefix.
\<close>

datatype RigidErrorCode =
    RIGID_SUCCESS
  | RIGID_ERROR_NOT_AUTHORIZED
  | RIGID_ERROR_INVALID_CONFIG
  | RIGID_ERROR_RECORDING_FAILED
  | RIGID_ERROR_ENCODING_FAILED
  | RIGID_ERROR_NO_RECORDING
  | RIGID_ERROR_SCREENSHOT_FAILED
  | RIGID_ERROR_WINDOW_NOT_FOUND
  | RIGID_ERROR_DISPLAY_NOT_FOUND

fun RigidErrorCode_value :: "RigidErrorCode \<Rightarrow> int" where
  "RigidErrorCode_value RIGID_SUCCESS = 0"
| "RigidErrorCode_value RIGID_ERROR_NOT_AUTHORIZED = 1"
| "RigidErrorCode_value RIGID_ERROR_INVALID_CONFIG = 2"
| "RigidErrorCode_value RIGID_ERROR_RECORDING_FAILED = 3"
| "RigidErrorCode_value RIGID_ERROR_ENCODING_FAILED = 4"
| "RigidErrorCode_value RIGID_ERROR_NO_RECORDING = 5"
| "RigidErrorCode_value RIGID_ERROR_SCREENSHOT_FAILED = 6"
| "RigidErrorCode_value RIGID_ERROR_WINDOW_NOT_FOUND = 7"
| "RigidErrorCode_value RIGID_ERROR_DISPLAY_NOT_FOUND = 8"

fun RigidErrorCode_name :: "RigidErrorCode \<Rightarrow> string" where
  "RigidErrorCode_name RIGID_SUCCESS = ''RIGID_SUCCESS''"
| "RigidErrorCode_name RIGID_ERROR_NOT_AUTHORIZED = ''RIGID_ERROR_NOT_AUTHORIZED''"
| "RigidErrorCode_name RIGID_ERROR_INVALID_CONFIG = ''RIGID_ERROR_INVALID_CONFIG''"
| "RigidErrorCode_name RIGID_ERROR_RECORDING_FAILED = ''RIGID_ERROR_RECORDING_FAILED''"
| "RigidErrorCode_name RIGID_ERROR_ENCODING_FAILED = ''RIGID_ERROR_ENCODING_FAILED''"
| "RigidErrorCode_name RIGID_ERROR_NO_RECORDING = ''RIGID_ERROR_NO_RECORDING''"
| "RigidErrorCode_name RIGID_ERROR_SCREENSHOT_FAILED = ''RIGID_ERROR_SCREENSHOT_FAILED''"
| "RigidErrorCode_name RIGID_ERROR_WINDOW_NOT_FOUND = ''RIGID_ERROR_WINDOW_NOT_FOUND''"
| "RigidErrorCode_name RIGID_ERROR_DISPLAY_NOT_FOUND = ''RIGID_ERROR_DISPLAY_NOT_FOUND''"

definition error_taxonomy :: "RigidErrorCode list" where
  "error_taxonomy =
     [ RIGID_ERROR_NOT_AUTHORIZED, RIGID_ERROR_INVALID_CONFIG, RIGID_ERROR_RECORDING_FAILED,
       RIGID_ERROR_ENCODING_FAILED, RIGID_ERROR_NO_RECORDING, RIGID_ERROR_SCREENSHOT_FAILED,
       RIGID_ERROR_WINDOW_NOT_FOUND, RIGID_ERROR_DISPLAY_NOT_FOUND ]"

text \<open>
  The status a call returns is an \<^verbatim>\<open>int32_t\<close>: a 32-bit word read as two's complement
  (\<open>sint\<close>). \<^verbatim>\<open>uint32_t\<close> is a 32-bit word read unsigned (\<open>unat\<close>).
\<close>

type_synonym int32_t = "32 word"
type_synonym uint32_t = "32 word"

definition status_of :: "RigidErrorCode \<Rightarrow> int32_t" where
  "status_of e = word_of_int (RigidErrorCode_value e)"

text \<open>What a caller reads from a status: the enumerator with that value, if there is one.\<close>

definition error_of_status :: "int32_t \<Rightarrow> RigidErrorCode option" where
  "error_of_status c =
     find (\<lambda>e. RigidErrorCode_value e = sint c) (RIGID_SUCCESS # error_taxonomy)"

text \<open>The functions of a header that return an \<^verbatim>\<open>int32_t\<close>, in the order of the file.\<close>

definition status_functions :: "decl list \<Rightarrow> string list" where
  "status_functions H = map fst (filter (\<lambda>(f, r, ps). r = CInt32) (functions_of H))"

fun enum_typedefs :: "decl list \<Rightarrow> string list" where
  "enum_typedefs [] = []"
| "enum_typedefs (TypedefEnum n cs # ds) = n # enum_typedefs ds"
| "enum_typedefs (d # ds) = enum_typedefs ds"

subsection \<open>What a prototype lets a call select and report\<close>

text \<open>
  A call can name a render job only through an \<^verbatim>\<open>export_id\<close> parameter, and can hand
  something back to its caller only through its return value or through a parameter
  that is a pointer, a handle or a callback.
\<close>

definition takes_export_id :: "param list \<Rightarrow> bool" where
  "takes_export_id ps = list_ex (\<lambda>p. snd p = ''export_id'') ps"

fun is_scalar :: "ctype \<Rightarrow> bool" where
  "is_scalar CBool = True"
| "is_scalar CInt32 = True"
| "is_scalar CUInt32 = True"
| "is_scalar CInt64 = True"
| "is_scalar CFloat = True"
| "is_scalar t = False"

definition reports_to_caller :: "ctype \<times> param list \<Rightarrow> bool" where
  "reports_to_caller sig =
     (\<not> (fst sig = CVoid \<and> list_all (\<lambda>p. is_scalar (fst p)) (snd sig)))"

definition compositor_functions :: "decl list \<Rightarrow> (string \<times> ctype \<times> param list) list" where
  "compositor_functions H = filter (\<lambda>(f, sig). contains ''compositor'' f) (functions_of H)"

text \<open>The type a prototype of a header gives a parameter, by function and parameter name.\<close>

definition param_type :: "decl list \<Rightarrow> string \<Rightarrow> string \<Rightarrow> ctype option" where
  "param_type H f p =
     (case prototype_of H f of
        None \<Rightarrow> None
      | Some (r, ps) \<Rightarrow> map_option fst (find (\<lambda>q. snd q = p) ps))"

section \<open>The engine behind the interface\<close>

text \<open>
  The headers declare the entry points of the engine; the engine that implements them is
  not among the sources. The definitions of this section are modelled from the
  specification's description of it (its sections 3 and 4), over the types and constants
  of the headers: what a C parameter declared \<^verbatim>\<open>int32_t\<close> holds is read with \<open>sint\<close>,
  what one declared \<^verbatim>\<open>uint32_t\<close> holds with \<open>unat\<close>, and a \<^verbatim>\<open>float\<close> is a real number.
\<close>

subsection \<open>Capture targets and recording configurations\<close>

text \<open>
  Modelled from the spec: the capture target of the engine (missing: the engine's target
  type), a window, a display, or a region of a display with its origin and size.
\<close>

datatype CaptureTarget =
    Window uint32_t
  | Display uint32_t
  | Region uint32_t int32_t int32_t int32_t int32_t

text \<open>
  Modelled from the spec: the recording configuration (missing: the engine's
  configuration type), with the fields the specification lists.
\<close>

record RecordingConfig =
  outputPath :: string
  width :: int
  height :: int
  fps :: nat
  bitrate :: nat
  keyframeInterval :: nat
  codec :: int32_t
  captureCursor :: bool
  captureAudio :: bool
  scaleFactor :: real

text \<open>
  Modelled from the spec: the supported codecs (missing: the engine's codec check). The
  codec is passed as an \<^verbatim>\<open>int32_t\<close>; the supported values are those of the header's
  codec macros.
\<close>

definition supported_codec :: "int32_t \<Rightarrow> bool" where
  "supported_codec c = List.member (map snd (macros_of RigidCaptureKit_h)) (sint c)"

text \<open>
  Modelled from the spec: the invariants of a recording configuration (missing: the
  engine's validation): positive dimensions, frame rate, bit rate and scale factor, a
  keyframe interval of at least one, a supported codec.
\<close>

definition config_valid :: "RecordingConfig \<Rightarrow> bool" where
  "config_valid cfg =
     (0 < width cfg \<and> 0 < height cfg \<and> 0 < fps cfg \<and> 0 < bitrate cfg
      \<and> 1 \<le> keyframeInterval cfg \<and> supported_codec (codec cfg) \<and> 0 < scaleFactor cfg)"

text \<open>
  Modelled from the spec: what the engine asks of the platform (missing: the platform
  calls of the engine). \<open>busy_error\<close> is the error a start outside \<open>Idle\<close> is rejected
  with, which the specification leaves to the implementer; \<open>region_addressable\<close> is
  whether the platform accepts a region of that display.
\<close>

record platform =
  permission :: bool
  window_exists :: "uint32_t \<Rightarrow> bool"
  display_exists :: "uint32_t \<Rightarrow> bool"
  region_addressable :: "uint32_t \<Rightarrow> int \<Rightarrow> int \<Rightarrow> int \<Rightarrow> int \<Rightarrow> bool"
  stream_opens :: "CaptureTarget \<Rightarrow> string \<Rightarrow> bool"
  grab_frame :: "CaptureTarget \<Rightarrow> string \<Rightarrow> bool"
  clock :: nat
  busy_error :: RigidErrorCode

text \<open>
  Modelled from the spec: the invariant of a capture target (missing: the engine's target
  validation): the width and height of a region are positive, and the region lies
  where the platform can address it.
\<close>

fun target_valid :: "platform \<Rightarrow> CaptureTarget \<Rightarrow> bool" where
  "target_valid P (Window i) = True"
| "target_valid P (Display i) = True"
| "target_valid P (Region d x y w h) =
     (0 < sint w \<and> 0 < sint h \<and> region_addressable P d (sint x) (sint y) (sint w) (sint h))"

text \<open>
  Modelled from the spec: resolving a target (missing: the engine's lookup of windows and
  displays); a target that does not resolve gives \<open>WindowNotFound\<close> or
  \<open>DisplayNotFound\<close>.
\<close>

fun resolve_target :: "platform \<Rightarrow> CaptureTarget \<Rightarrow> RigidErrorCode" where
  "resolve_target P (Window i) =
     (if window_exists P i then RIGID_SUCCESS else RIGID_ERROR_WINDOW_NOT_FOUND)"
| "resolve_target P (Display i) =
     (if display_exists P i then RIGID_SUCCESS else RIGID_ERROR_DISPLAY_NOT_FOUND)"
| "resolve_target P (Region d x y w h) =
     (if display_exists P d then RIGID_SUCCESS else RIGID_ERROR_DISPLAY_NOT_FOUND)"

subsection \<open>The recording session of a handle\<close>

text \<open>
  Modelled from the spec: the states of a recording session (missing: the engine's state
  machine). Between two calls a handle is \<open>Idle\<close> or \<open>Recording\<close>; the other states
  are passed through inside a call.
\<close>

datatype session_state = Idle | Starting | Recording | Stopping | Cancelling

text \<open>
  Modelled from the spec: a recording session (missing: the engine's session object), its
  target, its configuration and the time it started.
\<close>

record RecordingSession =
  target :: CaptureTarget
  config :: RecordingConfig
  startTimestamp :: nat

text \<open>
  Modelled from the spec: what a capture handle stands for (missing: the object behind
  the opaque \<^verbatim>\<open>RigidCaptureHandle\<close>): the state, and the one session it owns, if any.
\<close>

record CaptureHandle =
  state :: session_state
  session :: "RecordingSession option"

text \<open>
  Modelled from the spec: \<open>start(target, config)\<close> (missing: the engine's start). It is
  valid only from \<open>Idle\<close>; it fails with \<open>NotAuthorized\<close> without the permission, with
  \<open>InvalidConfig\<close> when an invariant of the configuration or of the target is violated,
  with the resolution error when the target does not resolve, with \<open>RecordingFailed\<close>
  when the capture stream or the encoder cannot be opened. Every failure leaves the
  handle as it was; on success the handle is \<open>Recording\<close> and holds the session with
  its start timestamp.
\<close>

definition start ::
  "platform \<Rightarrow> CaptureHandle \<Rightarrow> CaptureTarget \<Rightarrow> RecordingConfig \<Rightarrow> RigidErrorCode \<times> CaptureHandle" where
  "start P H tgt cfg =
     (if state H \<noteq> Idle then (busy_error P, H)
      else if \<not> permission P then (RIGID_ERROR_NOT_AUTHORIZED, H)
      else if \<not> (config_valid cfg \<and> target_valid P tgt) then (RIGID_ERROR_INVALID_CONFIG, H)
      else if resolve_target P tgt \<noteq> RIGID_SUCCESS then (resolve_target P tgt, H)
      else if \<not> stream_opens P tgt (outputPath cfg) then (RIGID_ERROR_RECORDING_FAILED, H)
      else (RIGID_SUCCESS,
            H\<lparr>state := Recording,
              session := Some \<lparr>target = tgt, config = cfg, startTimestamp = clock P\<rparr>\<rparr>))"

text \<open>
  Modelled from the spec: the entry point \<^verbatim>\<open>rigid_capture_start_region_recording\<close>
  (missing: its body), with the parameters of its prototype after the handle. The region
  is the target; its width and height are the dimensions of the configuration.
\<close>

definition rigid_capture_start_region_recording ::
  "platform \<Rightarrow> CaptureHandle \<Rightarrow> uint32_t \<Rightarrow> int32_t \<Rightarrow> int32_t \<Rightarrow> int32_t \<Rightarrow> int32_t \<Rightarrow> string
    \<Rightarrow> uint32_t \<Rightarrow> uint32_t \<Rightarrow> uint32_t \<Rightarrow> int32_t \<Rightarrow> bool \<Rightarrow> bool \<Rightarrow> real
    \<Rightarrow> int32_t \<times> CaptureHandle" where
  "rigid_capture_start_region_recording P H display_id x y w h output_path
      fps_arg bitrate_arg keyframe_interval codec_arg capture_cursor capture_audio scale_factor =
     (case start P H (Region display_id x y w h)
             \<lparr>outputPath = output_path, width = sint w, height = sint h,
              fps = unat fps_arg, bitrate = unat bitrate_arg,
              keyframeInterval = unat keyframe_interval, codec = codec_arg,
              captureCursor = capture_cursor, captureAudio = capture_audio,
              scaleFactor = scale_factor\<rparr> of
        (e, H') \<Rightarrow> (status_of e, H'))"

subsection \<open>Screenshots\<close>

text \<open>
  Modelled from the spec: a screenshot (missing: the engine's screenshot path), stateless
  and over the set of files that exist: the target is checked and resolved as for a
  recording, one frame is grabbed and saved; a failure of the grab is
  \<open>ScreenshotFailed\<close>, and no failure creates a file.
\<close>

definition screenshot ::
  "platform \<Rightarrow> string set \<Rightarrow> CaptureTarget \<Rightarrow> string \<Rightarrow> real \<Rightarrow> bool \<Rightarrow> RigidErrorCode \<times> string set" where
  "screenshot P files tgt output_path scale_factor capture_cursor =
     (if \<not> permission P then (RIGID_ERROR_NOT_AUTHORIZED, files)
      else if \<not> target_valid P tgt then (RIGID_ERROR_INVALID_CONFIG, files)
      else if resolve_target P tgt \<noteq> RIGID_SUCCESS then (resolve_target P tgt, files)
      else if \<not> grab_frame P tgt output_path then (RIGID_ERROR_SCREENSHOT_FAILED, files)
      else (RIGID_SUCCESS, insert output_path files))"

text \<open>
  Modelled from the spec: the entry point \<^verbatim>\<open>rigid_capture_screenshot_region\<close> (missing:
  its body), with the parameters of its prototype.
\<close>

definition rigid_capture_screenshot_region ::
  "platform \<Rightarrow> string set \<Rightarrow> uint32_t \<Rightarrow> int32_t \<Rightarrow> int32_t \<Rightarrow> int32_t \<Rightarrow> int32_t \<Rightarrow> string
    \<Rightarrow> real \<Rightarrow> bool \<Rightarrow> int32_t \<times> string set" where
  "rigid_capture_screenshot_region P files display_id x y w h output_path scale_factor capture_cursor =
     (case screenshot P files (Region display_id x y w h) output_path scale_factor capture_cursor of
        (e, files') \<Rightarrow> (status_of e, files'))"

subsection \<open>The compositor\<close>

text \<open>
  Modelled from the spec: a clip of a composition (missing: the engine's composition
  types): the source media it references, its start time on the master timeline and
  its duration.
\<close>

record clip =
  source :: string
  startTime :: rat
  duration :: rat

text \<open>
  Modelled from the spec: the composition graph (missing: the engine's parsed
  configuration), the tracks in order, each the clips in order, and the output's
  dimensions, frame rate, codec and file.
\<close>

record CompositionGraph =
  tracks :: "clip list list"
  outWidth :: int
  outHeight :: int
  outFps :: int
  outCodec :: int32_t
  outFile :: string

text \<open>
  Modelled from the spec: what the render loop asks of its surroundings (missing: the
  media reader, the encoder pipeline and the cancellation flag of the engine):
  whether a source reference resolves; the number of frames of a graph, its master
  timeline in steps of the output frame rate; the result of compositing and pushing
  the frame after \<open>k\<close> emitted ones; whether a cancellation request is seen at the frame
  boundary after \<open>k\<close> emitted frames.
\<close>

record render_env =
  source_resolvable :: "string \<Rightarrow> bool"
  frame_count :: "CompositionGraph \<Rightarrow> nat"
  emit_frame :: "nat \<Rightarrow> RigidErrorCode"
  cancel_seen :: "nat \<Rightarrow> bool"

text \<open>
  Modelled from the spec: two clips overlap in time (missing: the engine's overlap test);
  a clip covers the half-open range from its start to its start plus its duration.
\<close>

definition clips_overlap :: "clip \<Rightarrow> clip \<Rightarrow> bool" where
  "clips_overlap a b =
     (startTime a < startTime b + duration b \<and> startTime b < startTime a + duration a)"

text \<open>
  Modelled from the spec: no two clips of a track overlap (missing: the engine's check of
  a track).
\<close>

fun track_disjoint :: "clip list \<Rightarrow> bool" where
  "track_disjoint [] = True"
| "track_disjoint (c # cs) = (list_all (\<lambda>d. \<not> clips_overlap c d) cs \<and> track_disjoint cs)"

text \<open>
  Modelled from the spec: the validation of a graph, run before any rendering (missing:
  the engine's validation pass): every source resolves, no two clips of a track overlap
  in time, the durations, the dimensions and the frame rate are positive, the codec is
  supported.
\<close>

definition validate :: "render_env \<Rightarrow> CompositionGraph \<Rightarrow> bool" where
  "validate R g =
     (list_all (list_all (\<lambda>c. source_resolvable R (source c))) (tracks g)
      \<and> list_all track_disjoint (tracks g)
      \<and> list_all (list_all (\<lambda>c. 0 < duration c)) (tracks g)
      \<and> 0 < outWidth g \<and> 0 < outHeight g \<and> 0 < outFps g
      \<and> supported_codec (outCodec g))"

text \<open>
  Modelled from the spec: the states of a render job (missing: the engine's job state).
\<close>

datatype job_state = Pending | Running | JobCancelling | Completed | Failed

text \<open>
  Modelled from the spec: a render job (missing: the engine's job object), with its export
  id, its graph and its frame counters.
\<close>

record RenderJob =
  exportId :: string
  graph :: CompositionGraph
  jobState :: job_state
  framesTotal :: nat
  framesEmitted :: nat

text \<open>
  Modelled from the spec: how a job ends (missing: the engine's result of a render):
  completed, failed with an error of the taxonomy, or cancelled.
\<close>

datatype outcome = Done | Error RigidErrorCode | Cancelled

text \<open>
  Modelled from the spec: what the host observes of a synchronous render, in order: the
  invocations of the progress callback with (export id, fraction done, current frame,
  total frames), and the return of the call.
\<close>

datatype event = Progress string real nat nat | Returned outcome

text \<open>
  Modelled from the spec: the frame loop (missing: the engine's render loop). A step
  composites and pushes one frame, increments \<open>framesEmitted\<close> and invokes the progress
  callback. The loop ends when \<open>framesEmitted\<close> has reached \<open>framesTotal\<close>, on the
  first error of a frame, or on a cancellation seen at a frame boundary. It starts
  with no frame emitted and adds one per step, so that the test \<open>framesTotal \<le>
  framesEmitted\<close> is the specification's \<open>framesEmitted == framesTotal\<close>.
\<close>

function frame_loop :: "render_env \<Rightarrow> RenderJob \<Rightarrow> event list \<Rightarrow> outcome \<times> RenderJob \<times> event list" where
  "frame_loop R j evs =
     (if framesTotal j \<le> framesEmitted j then (Done, j\<lparr>jobState := Completed\<rparr>, evs)
      else if cancel_seen R (framesEmitted j) then (Cancelled, j\<lparr>jobState := Failed\<rparr>, evs)
      else if emit_frame R (framesEmitted j) \<noteq> RIGID_SUCCESS
        then (Error (emit_frame R (framesEmitted j)), j\<lparr>jobState := Failed\<rparr>, evs)
      else frame_loop R (j\<lparr>framesEmitted := framesEmitted j + 1\<rparr>)
             (evs @ [Progress (exportId j)
                       (real (framesEmitted j + 1) / real (framesTotal j))
                       (framesEmitted j + 1) (framesTotal j)]))"
  by pat_completeness auto
termination
  by (relation "measure (\<lambda>(R, j, evs). framesTotal j - framesEmitted j)") auto

text \<open>
  Modelled from the spec: the synchronous render (missing: the body of
  \<^verbatim>\<open>rigid_compositor_render\<close> behind the parsing of its configuration): it validates,
  then runs the frame loop on the caller's thread, and returns only when the job has
  ended.
\<close>

definition render :: "render_env \<Rightarrow> string \<Rightarrow> CompositionGraph \<Rightarrow> outcome \<times> RenderJob \<times> event list" where
  "render R export_id g =
     (let j = \<lparr>exportId = export_id, graph = g, jobState = Pending,
               framesTotal = frame_count R g, framesEmitted = 0\<rparr>
      in if \<not> validate R g
         then (Error RIGID_ERROR_INVALID_CONFIG, j\<lparr>jobState := Failed\<rparr>,
               [Returned (Error RIGID_ERROR_INVALID_CONFIG)])
         else (case frame_loop R (j\<lparr>jobState := Running\<rparr>) [] of
                 (out, j', evs) \<Rightarrow> (out, j', evs @ [Returned out])))"

text \<open>The current-frame values of the progress callbacks of a trace, in order.\<close>

fun progress_frames :: "event list \<Rightarrow> nat list" where
  "progress_frames [] = []"
| "progress_frames (Progress i p k n # es) = k # progress_frames es"
| "progress_frames (Returned out # es) = progress_frames es"

text \<open>The events of a trace after its first return.\<close>

fun after_return :: "event list \<Rightarrow> event list" where
  "after_return [] = []"
| "after_return (Returned out # es) = es"
| "after_return (Progress i p k n # es) = after_return es"

subsection \<open>Example inputs\<close>

text \<open>
  A platform that grants the permission, knows every window and display and opens every
  stream; a render environment with three frames, none failing and no cancellation; a
  graph of one track with two clips, \<open>[0, 5)\<close> and \<open>[5, 8)\<close>.
\<close>

definition example_platform :: platform where
  "example_platform =
     \<lparr>permission = True, window_exists = (\<lambda>i. True), display_exists = (\<lambda>i. True),
      region_addressable = (\<lambda>d x y w h. True), stream_opens = (\<lambda>t p. True),
      grab_frame = (\<lambda>t p. True), clock = 0, busy_error = RIGID_ERROR_RECORDING_FAILED\<rparr>"

definition idle_handle :: CaptureHandle where
  "idle_handle = \<lparr>state = Idle, session = None\<rparr>"

definition example_env :: render_env where
  "example_env =
     \<lparr>source_resolvable = (\<lambda>s. True), frame_count = (\<lambda>g. 3),
      emit_frame = (\<lambda>k. RIGID_SUCCESS), cancel_seen = (\<lambda>k. False)\<rparr>"

definition example_graph :: CompositionGraph where
  "example_graph =
     \<lparr>tracks = [[\<lparr>source = ''a.mov'', startTime = 0, duration = 5\<rparr>,
                 \<lparr>source = ''b.mov'', startTime = 5, duration = 3\<rparr>]],
      outWidth = 1280, outHeight = 720, outFps = 30, outCodec = 0, outFile = ''out.mp4''\<rparr>"

section \<open>Properties of the headers\<close>

text \<open>
  C8. \<^verbatim>\<open>TakaCaptureKit.h\<close> is \<^verbatim>\<open>RigidCaptureKit.h\<close> without its compositor
  section, renamed: every declaration outside the compositor section, renamed
  declaration by declaration, gives the Taka header in the same order (same functions,
  same parameter lists and types, same enumerator values, same codec constants). The
  compositor section is the two callback types and the functions render, render_async
  and cancel; the Taka header declares nothing that mentions the compositor. With
  typedef names resolved to the types they stand for, the functions and the integer
  constants agree under the renaming of \<^verbatim>\<open>rigid_\<close> and \<^verbatim>\<open>RIGID_\<close> alone; the
  type names carry the prefix as \<^verbatim>\<open>Rigid\<close>.
\<close>

theorem headers_equal_modulo_prefix:
  "map rename_decl (filter (\<lambda>d. \<not> is_compositor_decl d) RigidCaptureKit_h) = TakaCaptureKit_h
   \<and> filter is_compositor_decl RigidCaptureKit_h = compositor_api
   \<and> map decl_name compositor_api =
       [ ''RigidCompositorProgressCallback'', ''RigidCompositorCompletionCallback'',
         ''rigid_compositor_render'', ''rigid_compositor_render_async'',
         ''rigid_compositor_cancel'' ]
   \<and> filter is_compositor_decl TakaCaptureKit_h = []
   \<and> map (\<lambda>(f, sig). (rename_lower_upper f, sig))
         (filter (\<lambda>(f, sig). \<not> contains ''compositor'' f) (functions_of RigidCaptureKit_h))
       = functions_of TakaCaptureKit_h
   \<and> map (\<lambda>(c, v). (rename_lower_upper c, v)) (enumerators_of RigidCaptureKit_h)
       = enumerators_of TakaCaptureKit_h
   \<and> map (\<lambda>(c, v). (rename_lower_upper c, v)) (macros_of RigidCaptureKit_h)
       = macros_of TakaCaptureKit_h"
  by (simp add: RigidCaptureKit_h_def TakaCaptureKit_h_def compositor_api_def
      is_compositor_decl_def rename_ident_def rename_lower_upper_def rename_param_def
      functions_of_def)

text \<open>
  C1. The status of a call is an \<^verbatim>\<open>int32_t\<close>, and the headers declare one enumeration of
  its values: 0 is success and only success, and the eight errors of the taxonomy have
  the values 1 to 8 in the order NotAuthorized, InvalidConfig, RecordingFailed,
  EncodingFailed, NoRecording, ScreenshotFailed, WindowNotFound, DisplayNotFound. The
  values are one to one with the enumerators, and the enumeration is closed: a status
  outside 0..8 is no enumerator. The functions that return a status are exactly the
  recording starts, stop and cancel, the screenshots and the two compositor renders, so
  the recording, screenshot and compositor paths share the enumeration; the Taka header
  has the same values.
\<close>

theorem error_codes_closed_enumeration:
  "map (\<lambda>e. (RigidErrorCode_name e, RigidErrorCode_value e)) (RIGID_SUCCESS # error_taxonomy)
     = enumerators_of RigidCaptureKit_h
   \<and> map snd (enumerators_of TakaCaptureKit_h) = map snd (enumerators_of RigidCaptureKit_h)
   \<and> enum_typedefs RigidCaptureKit_h = [''RigidErrorCode'']
   \<and> enum_typedefs TakaCaptureKit_h = [''TakaErrorCode'']
   \<and> map RigidErrorCode_value error_taxonomy = [1, 2, 3, 4, 5, 6, 7, 8]
   \<and> (RigidErrorCode_value e = 0) = (e = RIGID_SUCCESS)
   \<and> (RigidErrorCode_value e = RigidErrorCode_value e') = (e = e')
   \<and> (error_of_status c = Some e) = (sint c = RigidErrorCode_value e)
   \<and> (error_of_status c = None) = (sint c < 0 \<or> 8 < sint c)
   \<and> sint (status_of e) = RigidErrorCode_value e
   \<and> status_functions RigidCaptureKit_h =
       [ ''rigid_capture_start_window_recording'', ''rigid_capture_start_display_recording'',
         ''rigid_capture_start_region_recording'', ''rigid_capture_stop_recording'',
         ''rigid_capture_cancel_recording'', ''rigid_capture_screenshot_window'',
         ''rigid_capture_screenshot_display'', ''rigid_capture_screenshot_region'',
         ''rigid_compositor_render'', ''rigid_compositor_render_async'' ]
   \<and> status_functions TakaCaptureKit_h =
       [ ''taka_capture_start_window_recording'', ''taka_capture_start_display_recording'',
         ''taka_capture_start_region_recording'', ''taka_capture_stop_recording'',
         ''taka_capture_cancel_recording'', ''taka_capture_screenshot_window'',
         ''taka_capture_screenshot_display'', ''taka_capture_screenshot_region'' ]"
proof -
  have names:
    "map (\<lambda>e. (RigidErrorCode_name e, RigidErrorCode_value e)) (RIGID_SUCCESS # error_taxonomy)
       = enumerators_of RigidCaptureKit_h"
    by (simp add: error_taxonomy_def RigidCaptureKit_h_def)
  have taka: "map snd (enumerators_of TakaCaptureKit_h) = map snd (enumerators_of RigidCaptureKit_h)"
    by (simp add: TakaCaptureKit_h_def RigidCaptureKit_h_def)
  have one: "enum_typedefs RigidCaptureKit_h = [''RigidErrorCode'']"
    "enum_typedefs TakaCaptureKit_h = [''TakaErrorCode'']"
    by (simp_all add: TakaCaptureKit_h_def RigidCaptureKit_h_def)
  have order: "map RigidErrorCode_value error_taxonomy = [1, 2, 3, 4, 5, 6, 7, 8]"
    by (simp add: error_taxonomy_def)
  have zero: "(RigidErrorCode_value e = 0) = (e = RIGID_SUCCESS)"
    by (cases e) simp_all
  have inj: "(RigidErrorCode_value e = RigidErrorCode_value e') = (e = e')"
    by (cases e; cases e') simp_all
  have decode: "(error_of_status c = Some e) = (sint c = RigidErrorCode_value e)"
    by (cases e) (auto simp add: error_of_status_def error_taxonomy_def split: if_splits)
  have closed: "(error_of_status c = None) = (sint c < 0 \<or> 8 < sint c)"
    by (auto simp add: error_of_status_def error_taxonomy_def split: if_splits)
  have encode: "sint (status_of e) = RigidErrorCode_value e"
    by (cases e) (simp_all add: status_of_def)
  have rigid: "status_functions RigidCaptureKit_h =
       [ ''rigid_capture_start_window_recording'', ''rigid_capture_start_display_recording'',
         ''rigid_capture_start_region_recording'', ''rigid_capture_stop_recording'',
         ''rigid_capture_cancel_recording'', ''rigid_capture_screenshot_window'',
         ''rigid_capture_screenshot_display'', ''rigid_capture_screenshot_region'',
         ''rigid_compositor_render'', ''rigid_compositor_render_async'' ]"
    by (simp add: status_functions_def functions_of_def RigidCaptureKit_h_def)
  have taka_fns: "status_functions TakaCaptureKit_h =
       [ ''taka_capture_start_window_recording'', ''taka_capture_start_display_recording'',
         ''taka_capture_start_region_recording'', ''taka_capture_stop_recording'',
         ''taka_capture_cancel_recording'', ''taka_capture_screenshot_window'',
         ''taka_capture_screenshot_display'', ''taka_capture_screenshot_region'' ]"
    by (simp add: status_functions_def functions_of_def TakaCaptureKit_h_def)
  from names taka one order zero inj decode closed encode rigid taka_fns show ?thesis
    by blast
qed

text \<open>
  C9. The compositor's cancel is declared \<^verbatim>\<open>void rigid_compositor_cancel(void)\<close>: it is
  the only compositor function that cancels, it takes no export id (so a call cannot
  name one job among several) and it has neither a return value nor a parameter through
  which a failure, or the absence of an active job, could reach the caller. The two
  render functions, by contrast, take an export id and return a status.
\<close>

theorem compositor_cancel_is_blind:
  "prototype_of RigidCaptureKit_h ''rigid_compositor_cancel'' = Some (CVoid, [])
   \<and> filter (\<lambda>(f, sig). contains ''cancel'' f) (compositor_functions RigidCaptureKit_h)
       = [(''rigid_compositor_cancel'', CVoid, [])]
   \<and> map (\<lambda>(f, sig). (f, takes_export_id (snd sig), reports_to_caller sig))
         (compositor_functions RigidCaptureKit_h)
       = [ (''rigid_compositor_render'', True, True),
           (''rigid_compositor_render_async'', True, True),
           (''rigid_compositor_cancel'', False, False) ]"
  by (simp add: RigidCaptureKit_h_def compositor_functions_def functions_of_def
      takes_export_id_def reports_to_caller_def)

section \<open>Properties of the modelled engine\<close>

subsection \<open>Region calls\<close>

lemma status_of_zero: "(status_of e = 0) = (e = RIGID_SUCCESS)"
  by (cases e) (simp_all add: status_of_def)

lemma start_invalid_region:
  assumes "busy_error P \<noteq> RIGID_SUCCESS" and "sint w \<le> 0 \<or> sint h \<le> 0"
  shows "fst (start P H (Region d x y w h) cfg) \<noteq> RIGID_SUCCESS
       \<and> snd (start P H (Region d x y w h) cfg) = H"
  using assms by (auto simp add: start_def)

lemma screenshot_invalid_region:
  assumes "sint w \<le> 0 \<or> sint h \<le> 0"
  shows "fst (screenshot P files (Region d x y w h) path sf cc) \<noteq> RIGID_SUCCESS
       \<and> snd (screenshot P files (Region d x y w h) path sf cc) = files"
  using assms by (auto simp add: screenshot_def)

lemma region_parameter_types:
  "map (param_type RigidCaptureKit_h ''rigid_capture_start_region_recording'')
         [''x'', ''y'', ''width'', ''height''] = [Some CInt32, Some CInt32, Some CInt32, Some CInt32]
   \<and> map (param_type RigidCaptureKit_h ''rigid_capture_screenshot_region'')
         [''x'', ''y'', ''width'', ''height''] = [Some CInt32, Some CInt32, Some CInt32, Some CInt32]
   \<and> map (param_type TakaCaptureKit_h ''taka_capture_start_region_recording'')
         [''x'', ''y'', ''width'', ''height''] = [Some CInt32, Some CInt32, Some CInt32, Some CInt32]
   \<and> map (param_type RigidCaptureKit_h ''rigid_capture_start_window_recording'')
         [''width'', ''height'', ''fps'', ''bitrate'', ''keyframe_interval'']
       = [Some CUInt32, Some CUInt32, Some CUInt32, Some CUInt32, Some CUInt32]
   \<and> map (param_type RigidCaptureKit_h ''rigid_capture_start_display_recording'')
         [''width'', ''height'', ''fps'', ''bitrate'', ''keyframe_interval'']
       = [Some CUInt32, Some CUInt32, Some CUInt32, Some CUInt32, Some CUInt32]"
  by (simp add: param_type_def RigidCaptureKit_h_def TakaCaptureKit_h_def)

text \<open>
  C10. The region calls declare x, y, width and height as \<^verbatim>\<open>int32_t\<close>, where the window
  and display recordings declare width, height, fps, bitrate and keyframe_interval as
  \<^verbatim>\<open>uint32_t\<close>; so a region call can be given a width or a height that is zero or
  negative. For every such call, whatever its other arguments and whatever the handle's
  state, the start of a region recording and the region screenshot return a nonzero
  status and do not proceed: the handle is as before, and no file is created. (The
  error a start outside \<open>Idle\<close> is rejected with is the implementer's choice; it is taken
  to be an error, not \<^verbatim>\<open>RIGID_SUCCESS\<close>.)
\<close>

theorem region_calls_reject_nonpositive_size:
  assumes "busy_error P \<noteq> RIGID_SUCCESS" and "sint w \<le> 0 \<or> sint h \<le> 0"
  shows "fst (rigid_capture_start_region_recording P H d x y w h path f b k c cc ca sf) \<noteq> 0
       \<and> snd (rigid_capture_start_region_recording P H d x y w h path f b k c cc ca sf) = H
       \<and> fst (rigid_capture_screenshot_region P files d x y w h path sf cc) \<noteq> 0
       \<and> snd (rigid_capture_screenshot_region P files d x y w h path sf cc) = files
       \<and> map (param_type RigidCaptureKit_h ''rigid_capture_start_region_recording'')
           [''x'', ''y'', ''width'', ''height''] = [Some CInt32, Some CInt32, Some CInt32, Some CInt32]
       \<and> map (param_type RigidCaptureKit_h ''rigid_capture_screenshot_region'')
           [''x'', ''y'', ''width'', ''height''] = [Some CInt32, Some CInt32, Some CInt32, Some CInt32]
       \<and> map (param_type TakaCaptureKit_h ''taka_capture_start_region_recording'')
           [''x'', ''y'', ''width'', ''height''] = [Some CInt32, Some CInt32, Some CInt32, Some CInt32]
       \<and> map (param_type RigidCaptureKit_h ''rigid_capture_start_window_recording'')
           [''width'', ''height'', ''fps'', ''bitrate'', ''keyframe_interval'']
         = [Some CUInt32, Some CUInt32, Some CUInt32, Some CUInt32, Some CUInt32]
       \<and> map (param_type RigidCaptureKit_h ''rigid_capture_start_display_recording'')
           [''width'', ''height'', ''fps'', ''bitrate'', ''keyframe_interval'']
         = [Some CUInt32, Some CUInt32, Some CUInt32, Some CUInt32, Some CUInt32]"
proof -
  have "fst (rigid_capture_start_region_recording P H d x y w h path f b k c cc ca sf) \<noteq> 0
      \<and> snd (rigid_capture_start_region_recording P H d x y w h path f b k c cc ca sf) = H"
    using start_invalid_region [OF assms, of H d x y]
    by (simp add: rigid_capture_start_region_recording_def status_of_zero split_beta)
  moreover have "fst (rigid_capture_screenshot_region P files d x y w h path sf cc) \<noteq> 0
      \<and> snd (rigid_capture_screenshot_region P files d x y w h path sf cc) = files"
    using screenshot_invalid_region [OF assms(2), of P files d x y path sf cc]
    by (simp add: rigid_capture_screenshot_region_def status_of_zero split_beta)
  ultimately show ?thesis
    using region_parameter_types by blast
qed

text \<open>
  The theorem at a region of width \<open>-640\<close> on an idle handle: both calls return 2,
  \<^verbatim>\<open>RIGID_ERROR_INVALID_CONFIG\<close>.
\<close>

theorem region_calls_reject_nonpositive_size_witness:
  "busy_error example_platform \<noteq> RIGID_SUCCESS
   \<and> (sint (- 640 :: int32_t) \<le> 0 \<or> sint (480 :: int32_t) \<le> 0)
   \<and> rigid_capture_start_region_recording example_platform idle_handle
         1 0 0 (- 640) 480 ''out.mp4'' 30 1000 30 0 True False 1
       = (2, idle_handle)
   \<and> rigid_capture_screenshot_region example_platform {} 1 0 0 (- 640) 480 ''out.png'' 1 False
       = (2, {})"
  using region_calls_reject_nonpositive_size
    [of example_platform "- 640" 480 idle_handle 1 0 0 "''out.mp4''" 30 1000 30 0 True False 1 "{}"]
  by (simp add: example_platform_def idle_handle_def rigid_capture_start_region_recording_def
      rigid_capture_screenshot_region_def start_def screenshot_def status_of_def
      config_valid_def supported_codec_def)

subsection \<open>The progress of a synchronous render\<close>

declare frame_loop.simps [simp del]

text \<open>
  A loop that ends with \<open>Done\<close> has run every remaining step: it has appended one
  progress event per frame, and the job has all its frames.
\<close>

lemma frame_loop_done:
  "frame_loop R j evs = (Done, j', evs') \<Longrightarrow> framesEmitted j \<le> framesTotal j \<Longrightarrow>
   evs' = evs @ map (\<lambda>k. Progress (exportId j) (real k / real (framesTotal j)) k (framesTotal j))
                   [Suc (framesEmitted j) ..< Suc (framesTotal j)]
   \<and> j' = j\<lparr>framesEmitted := framesTotal j, jobState := Completed\<rparr>"
proof (induction R j evs rule: frame_loop.induct)
  case (1 R j evs)
  show ?case
  proof (cases "framesTotal j \<le> framesEmitted j")
    case True
    with "1.prems"(2) have eq: "framesTotal j = framesEmitted j" by simp
    with "1.prems"(1) show ?thesis
      by (auto simp add: frame_loop.simps [of R j evs])
  next
    case False
    with "1.prems" have c: "\<not> cancel_seen R (framesEmitted j)"
      and e: "emit_frame R (framesEmitted j) = RIGID_SUCCESS"
      by (auto simp add: frame_loop.simps [of R j evs] split: if_splits)
    let ?j = "j\<lparr>framesEmitted := framesEmitted j + 1\<rparr>"
    let ?evs = "evs @ [Progress (exportId j) (real (framesEmitted j + 1) / real (framesTotal j))
                       (framesEmitted j + 1) (framesTotal j)]"
    from False c e "1.prems" have run: "frame_loop R ?j ?evs = (Done, j', evs')"
      by (simp add: frame_loop.simps [of R j evs])
    from False have le: "framesEmitted ?j \<le> framesTotal ?j" by simp
    from "1.IH" [OF False c _ run le] e
    have ih: "evs' = ?evs @ map (\<lambda>k. Progress (exportId ?j) (real k / real (framesTotal ?j)) k (framesTotal ?j))
                   [Suc (framesEmitted ?j) ..< Suc (framesTotal ?j)]
         \<and> j' = ?j\<lparr>framesEmitted := framesTotal ?j, jobState := Completed\<rparr>"
      by simp
    from False have "[Suc (framesEmitted j) ..< Suc (framesTotal j)]
        = Suc (framesEmitted j) # [Suc (Suc (framesEmitted j)) ..< Suc (framesTotal j)]"
      by (simp add: upt_conv_Cons)
    with ih show ?thesis by simp
  qed
qed

lemma progress_frames_append:
  "progress_frames (xs @ ys) = progress_frames xs @ progress_frames ys"
  by (induction xs rule: progress_frames.induct) simp_all

lemma progress_frames_map:
  "progress_frames (map (\<lambda>k. Progress i (p k) k n) ks) = ks"
  by (induction ks) simp_all

lemma after_return_progress:
  "after_return (map (\<lambda>k. Progress i (p k) k n) ks @ es) = after_return es"
  by (induction ks) simp_all

text \<open>The whole trace of a render that returns \<open>Done\<close>, and the job it leaves.\<close>

lemma render_done_trace:
  assumes "render R export_id g = (Done, j, tr)"
  shows "tr = map (\<lambda>k. Progress export_id (real k / real (frame_count R g)) k (frame_count R g))
                [1 ..< Suc (frame_count R g)] @ [Returned Done]"
    and "framesEmitted j = frame_count R g" and "framesTotal j = frame_count R g"
    and "jobState j = Completed"
proof -
  let ?j0 = "\<lparr>exportId = export_id, graph = g, jobState = Running,
               framesTotal = frame_count R g, framesEmitted = 0\<rparr>"
  from assms have v: "validate R g"
    by (auto simp add: render_def Let_def split: if_splits)
  obtain out j' evs where fl: "frame_loop R ?j0 [] = (out, j', evs)"
    by (cases "frame_loop R ?j0 []") auto
  with assms v have "out = Done" "j' = j" "tr = evs @ [Returned Done]"
    by (auto simp add: render_def Let_def)
  with fl have fl': "frame_loop R ?j0 [] = (Done, j, evs)" by simp
  from frame_loop_done [OF fl'] have
    "evs = map (\<lambda>k. Progress export_id (real k / real (frame_count R g)) k (frame_count R g))
                [1 ..< Suc (frame_count R g)]"
    "j = ?j0\<lparr>framesEmitted := frame_count R g, jobState := Completed\<rparr>"
    by simp_all
  with \<open>tr = evs @ [Returned Done]\<close>
  show "tr = map (\<lambda>k. Progress export_id (real k / real (frame_count R g)) k (frame_count R g))
                [1 ..< Suc (frame_count R g)] @ [Returned Done]"
    and "framesEmitted j = frame_count R g" and "framesTotal j = frame_count R g"
    and "jobState j = Completed"
    by simp_all
qed

text \<open>
  The render returns \<open>Done\<close> whenever the graph is valid, every frame is emitted and no
  cancellation is seen: the success the next theorem is about does occur.
\<close>

lemma frame_loop_runs:
  "(\<And>k. k < framesTotal j \<Longrightarrow> emit_frame R k = RIGID_SUCCESS \<and> \<not> cancel_seen R k)
   \<Longrightarrow> fst (frame_loop R j evs) = Done"
proof (induction R j evs rule: frame_loop.induct)
  case (1 R j evs)
  show ?case
  proof (cases "framesTotal j \<le> framesEmitted j")
    case True
    then show ?thesis by (simp add: frame_loop.simps [of R j evs])
  next
    case False
    then have k: "framesEmitted j < framesTotal j" by simp
    from "1.prems" [OF k] have c: "\<not> cancel_seen R (framesEmitted j)"
      and e: "emit_frame R (framesEmitted j) = RIGID_SUCCESS" by simp_all
    have "fst (frame_loop R (j\<lparr>framesEmitted := framesEmitted j + 1\<rparr>)
             (evs @ [Progress (exportId j) (real (framesEmitted j + 1) / real (framesTotal j))
                       (framesEmitted j + 1) (framesTotal j)])) = Done"
      using "1.IH" [OF False c] e "1.prems" by simp
    with False c e show ?thesis by (simp add: frame_loop.simps [of R j evs])
  qed
qed

lemma render_succeeds:
  assumes "validate R g"
    and "\<And>k. k < frame_count R g \<Longrightarrow> emit_frame R k = RIGID_SUCCESS \<and> \<not> cancel_seen R k"
  shows "fst (render R export_id g) = Done"
  using assms frame_loop_runs [of "\<lparr>exportId = export_id, graph = g, jobState = Running,
               framesTotal = frame_count R g, framesEmitted = 0\<rparr>" R "[]"]
  by (simp add: render_def Let_def split_beta)

text \<open>
  C6. A synchronous render that succeeds on a graph of \<open>N\<close> frames has invoked the
  progress callback with the current frames \<open>1, 2, ..., N\<close>: they never decrease (and
  never repeat), the last invocation, when there is one, carries \<open>N\<close>, and the job the
  call returns has \<open>framesEmitted = framesTotal = N\<close>. The return is the last event
  of the trace: no progress callback comes after it.
\<close>

theorem render_progress_sequence:
  assumes "render R export_id g = (Done, j, tr)"
  shows "progress_frames tr = [1 ..< Suc (frame_count R g)]
       \<and> sorted (progress_frames tr) \<and> distinct (progress_frames tr)
       \<and> (progress_frames tr \<noteq> [] \<longrightarrow> last (progress_frames tr) = frame_count R g)
       \<and> framesEmitted j = framesTotal j \<and> framesTotal j = frame_count R g
       \<and> jobState j = Completed
       \<and> last tr = Returned Done
       \<and> after_return tr = []"
proof -
  note t = render_done_trace [OF assms]
  have pf: "progress_frames tr = [1 ..< Suc (frame_count R g)]"
    by (simp add: t(1) progress_frames_append progress_frames_map)
  have "sorted (progress_frames tr)"
    by (simp only: pf sorted_upt)
  moreover have "distinct (progress_frames tr)"
    by (simp only: pf distinct_upt)
  moreover have "progress_frames tr \<noteq> [] \<longrightarrow> last (progress_frames tr) = frame_count R g"
    by (simp add: pf)
  moreover have "last tr = Returned Done" by (simp add: t(1))
  moreover have "after_return tr = []"
    by (simp add: t(1) after_return_progress)
  ultimately show ?thesis using pf t(2,3,4) by simp
qed

text \<open>
  The theorem at the example: a valid graph of three frames renders with the
  callbacks at frames 1, 2, 3 and then returns.
\<close>

theorem render_progress_sequence_witness:
  "render example_env ''e1'' example_graph =
     (Done,
      \<lparr>exportId = ''e1'', graph = example_graph, jobState = Completed,
       framesTotal = 3, framesEmitted = 3\<rparr>,
      [Progress ''e1'' (1 / 3) 1 3, Progress ''e1'' (2 / 3) 2 3, Progress ''e1'' 1 3 3,
       Returned Done])
   \<and> progress_frames
       [Progress ''e1'' (1 / 3) 1 3, Progress ''e1'' (2 / 3) 2 3, Progress ''e1'' 1 3 3,
        Returned Done] = [1, 2, 3]"
proof -
  have run: "render example_env ''e1'' example_graph =
     (Done,
      \<lparr>exportId = ''e1'', graph = example_graph, jobState = Completed,
       framesTotal = 3, framesEmitted = 3\<rparr>,
      [Progress ''e1'' (1 / 3) 1 3, Progress ''e1'' (2 / 3) 2 3, Progress ''e1'' 1 3 3,
       Returned Done])"
    by (simp add: render_def example_env_def example_graph_def validate_def
        supported_codec_def clips_overlap_def RigidCaptureKit_h_def frame_loop.simps)
  have frames: "[1 ..< Suc (frame_count example_env example_graph)] = [1, 2, 3]"
    by (simp add: example_env_def upt_conv_Cons)
  from render_progress_sequence [OF run] have
    "progress_frames
       [Progress ''e1'' (1 / 3) 1 3, Progress ''e1'' (2 / 3) 2 3, Progress ''e1'' 1 3 3,
        Returned Done] = [1 ..< Suc (frame_count example_env example_graph)]"
    by (rule conjunct1)
  with frames have "progress_frames
       [Progress ''e1'' (1 / 3) 1 3, Progress ''e1'' (2 / 3) 2 3, Progress ''e1'' 1 3 3,
        Returned Done] = [1, 2, 3]"
    by (simp only:)
  with run show ?thesis by simp
qed

end
